theory Spec2Isabelle
  imports Complex_Main "HOL-Library.AList"
begin

section \<open>Values, errors and the external collaborators\<close>

text \<open>
  The program is one Python module, \<^verbatim>\<open>python/chronos_forecast.py\<close>.

  An event is a dict decoded from JSON. Its values are modelled by \<open>pyval\<close>: null, an
  int, a float or a string (booleans, arrays and nested objects are left out). Python's
  two kinds of number are kept apart: an int is unbounded, a float is a double, that is a
  finite value, an infinity or not-a-number (\<^verbatim>\<open>json.load\<close> reads \<^verbatim>\<open>NaN\<close> and
  \<^verbatim>\<open>Infinity\<close>). A dict is an association list, looked up with \<^const>\<open>map_of\<close>; the
  empty dict is \<open>[]\<close>.
\<close>

datatype pyfloat = Finite real | PosInf | NegInf | NaN

datatype pyval = PNone | PInt int | PFloat pyfloat | PStr string

type_synonym pydict = "(string \<times> pyval) list"

text \<open>\<^verbatim>\<open>d.get(k, default)\<close>\<close>

definition dict_get :: "pydict \<Rightarrow> string \<Rightarrow> pyval \<Rightarrow> pyval" where
  "dict_get d k dflt = (case map_of d k of None \<Rightarrow> dflt | Some v \<Rightarrow> v)"

text \<open>
  Python truthiness, as used by \<^verbatim>\<open>if e.get(...)\<close> and \<^verbatim>\<open>if not event\<close>: of the
  numbers only zero is false, so an infinity and not-a-number are true.
\<close>

fun truthy :: "pyval \<Rightarrow> bool" where
  "truthy PNone = False"
| "truthy (PInt n) = (n \<noteq> 0)"
| "truthy (PFloat f) = (f \<noteq> Finite 0)"
| "truthy (PStr s) = (s \<noteq> [])"

text \<open>
  Exceptions are values. \<open>EngineError\<close> is whatever an external collaborator raises
  beyond the three exceptions named here; \<open>NoSamples\<close> stands for a sample matrix with
  no rows, on which numpy has no real-valued answer (not-a-number or an IndexError,
  depending on the release).
\<close>

datatype error = IndexError | TypeError | OverflowError | EngineError string | NoSamples

subsection \<open>Floats\<close>

text \<open>
  A double has 53 significant bits and an exponent of at least -1022. \<open>rnd64\<close> rounds a
  real number to the nearest double, a tie going to the even significand, as IEEE 754
  division and Python's division of ints do. It does not limit the exponent from above:
  the result overflows the doubles when its magnitude reaches \<open>2 ^ 1024\<close>.
\<close>

definition round_half_even :: "real \<Rightarrow> int" where
  "round_half_even y =
     (let f = \<lfloor>y\<rfloor>; d = y - of_int f
      in if d < 1 / 2 then f else if 1 / 2 < d then f + 1 else if even f then f else f + 1)"

definition float_exponent :: "real \<Rightarrow> int" where
  "float_exponent x = max \<lfloor>log 2 \<bar>x\<bar>\<rfloor> (- 1022)"

definition ulp :: "real \<Rightarrow> real" where
  "ulp x = 2 powr (of_int (float_exponent x) - 52)"

definition rnd64 :: "real \<Rightarrow> real" where
  "rnd64 x = (if x = 0 then 0 else of_int (round_half_even (x / ulp x)) * ulp x)"

definition overflows :: "real \<Rightarrow> bool" where
  "overflows x = (2 ^ 1024 \<le> \<bar>rnd64 x\<bar>)"

text \<open>
  \<^verbatim>\<open>a / b\<close> on two ints is the correctly rounded quotient, or an OverflowError when
  that is too large for a float. The program divides by 10 and by a length of at least 1,
  never by zero.
\<close>

definition int_true_divide :: "int \<Rightarrow> int \<Rightarrow> error + pyfloat" where
  "int_true_divide a b =
     (if overflows (of_int a / of_int b) then Inl OverflowError
      else Inr (Finite (rnd64 (of_int a / of_int b))))"

text \<open>
  \<^verbatim>\<open>abs(v) / 10\<close>: on an int the division above; on a float the division of doubles,
  which cannot raise and cannot overflow; a TypeError on null and on a string.
\<close>

fun abs_over_ten :: "pyval \<Rightarrow> error + pyfloat" where
  "abs_over_ten (PInt n) = int_true_divide \<bar>n\<bar> 10"
| "abs_over_ten (PFloat (Finite x)) = Inr (Finite (rnd64 (\<bar>x\<bar> / 10)))"
| "abs_over_ten (PFloat PosInf) = Inr PosInf"
| "abs_over_ten (PFloat NegInf) = Inr PosInf"
| "abs_over_ten (PFloat NaN) = Inr NaN"
| "abs_over_ten PNone = Inl TypeError"
| "abs_over_ten (PStr s) = Inl TypeError"

text \<open>\<^verbatim>\<open>min(c, 1.0)\<close> is \<^verbatim>\<open>1.0\<close> when \<^verbatim>\<open>1.0 < c\<close> and \<^verbatim>\<open>c\<close> otherwise.\<close>

fun min_one :: "pyfloat \<Rightarrow> pyfloat" where
  "min_one (Finite x) = Finite (if 1 < x then 1 else x)"
| "min_one PosInf = Finite 1"
| "min_one NegInf = NegInf"
| "min_one NaN = NaN"

text \<open>
  \<^verbatim>\<open>r > 0\<close> and \<^verbatim>\<open>r < 0\<close>: false of not-a-number, a TypeError (\<open>None\<close> here) on null
  and on a string.
\<close>

fun gt_zero :: "pyval \<Rightarrow> bool option" where
  "gt_zero (PInt n) = Some (0 < n)"
| "gt_zero (PFloat (Finite x)) = Some (0 < x)"
| "gt_zero (PFloat PosInf) = Some True"
| "gt_zero (PFloat NegInf) = Some False"
| "gt_zero (PFloat NaN) = Some False"
| "gt_zero PNone = None"
| "gt_zero (PStr s) = None"

fun lt_zero :: "pyval \<Rightarrow> bool option" where
  "lt_zero (PInt n) = Some (n < 0)"
| "lt_zero (PFloat (Finite x)) = Some (x < 0)"
| "lt_zero (PFloat PosInf) = Some False"
| "lt_zero (PFloat NegInf) = Some True"
| "lt_zero (PFloat NaN) = Some False"
| "lt_zero PNone = None"
| "lt_zero (PStr s) = None"

text \<open>\<^verbatim>\<open>sum(1 for r in rs if test(r))\<close>, where the test may raise.\<close>

fun count_if :: "(pyval \<Rightarrow> bool option) \<Rightarrow> pyval list \<Rightarrow> nat option" where
  "count_if test [] = Some 0"
| "count_if test (r # rs) =
     (case test r of
        None \<Rightarrow> None
      | Some b \<Rightarrow> map_option (\<lambda>n. if b then Suc n else n) (count_if test rs))"

subsection \<open>The collaborators\<close>

text \<open>
  What the module gets from outside is a parameter. Of the engine
  (\<^verbatim>\<open>ChronosPipeline\<close>), \<open>from_pretrained\<close> loads the model with a given identifier and
  yields a handle, and \<open>predict\<close> maps a handle, the context, the prediction length and
  the number of samples to the sample matrix \<^verbatim>\<open>forecasts[0]\<close>, as a list of rows. Of
  numpy, \<open>np_mean\<close> is \<^verbatim>\<open>np.mean\<close> on a list of values. Each may raise. The compute
  device is left out.
\<close>

record 'h engine =
  from_pretrained :: "string \<Rightarrow> error + 'h"
  predict :: "'h \<Rightarrow> real list \<Rightarrow> int \<Rightarrow> int \<Rightarrow> error + real list list"
  np_mean :: "pyval list \<Rightarrow> error + pyfloat"

text \<open>
  The module's global state: \<^verbatim>\<open>_pipeline\<close> and \<^verbatim>\<open>_model_name\<close>, both \<^verbatim>\<open>None\<close>
  at start. \<open>calls\<close> records every invocation of the engine in order, as a mock
  forecaster would count them.
\<close>

datatype call = Load string | Predict "real list" int int

record 'h cache =
  pipeline :: "'h option"
  model_name :: "string option"
  calls :: "call list"

definition initial_cache :: "'h cache" where
  "initial_cache = \<lparr>pipeline = None, model_name = None, calls = []\<rparr>"

section \<open>\<^verbatim>\<open>get_pipeline\<close>\<close>

definition model_map :: "(string \<times> string) list" where
  "model_map =
     [(''tiny'', ''amazon/chronos-bolt-tiny''),
      (''small'', ''amazon/chronos-bolt-small''),
      (''base'', ''amazon/chronos-bolt-base''),
      (''mini'', ''amazon/chronos-t5-mini''),
      (''large'', ''amazon/chronos-t5-large'')]"

text \<open>\<^verbatim>\<open>model_map.get(model_size, "amazon/chronos-bolt-small")\<close>\<close>

definition target_model :: "string \<Rightarrow> string" where
  "target_model model_size =
     (case map_of model_map model_size of
        None \<Rightarrow> ''amazon/chronos-bolt-small''
      | Some m \<Rightarrow> m)"

text \<open>
  The load of lines 51 to 59: the engine is called, and only when it returns are the two
  globals assigned.
\<close>

definition load_model :: "'h engine \<Rightarrow> string \<Rightarrow> 'h cache \<Rightarrow> (error + 'h) \<times> 'h cache" where
  "load_model eng target st =
     (let st1 = st\<lparr>calls := calls st @ [Load target]\<rparr> in
      case from_pretrained eng target of
        Inl e \<Rightarrow> (Inl e, st1)
      | Inr p \<Rightarrow> (Inr p, st1\<lparr>pipeline := Some p, model_name := Some target\<rparr>))"

text \<open>\<^verbatim>\<open>if _pipeline is None or _model_name != target_model: ... ; return _pipeline\<close>\<close>

definition get_pipeline :: "'h engine \<Rightarrow> string \<Rightarrow> 'h cache \<Rightarrow> (error + 'h) \<times> 'h cache" where
  "get_pipeline eng model_size st =
     (let target = target_model model_size in
      case pipeline st of
        None \<Rightarrow> load_model eng target st
      | Some p \<Rightarrow>
          if model_name st \<noteq> Some target then load_model eng target st
          else (Inr p, st))"

section \<open>\<^verbatim>\<open>forecast_prices\<close>\<close>

text \<open>
  numpy's statistics over one column, with the default linear interpolation between order
  statistics: the column is sorted, the percentile \<open>q\<close> sits at the virtual index
  \<open>(n - 1) * q / 100\<close>, and the result interpolates between the two neighbouring
  order statistics. Over the reals numpy's two formulas for the interpolation agree, so
  one is written. The samples and the bands are real numbers here: numpy computes them in
  single precision, and its rounding and overflow are not modelled, so the model says which
  bands a result has and in which order they are built, and nothing about their values.
\<close>

definition lerp :: "real \<Rightarrow> real \<Rightarrow> real \<Rightarrow> real" where
  "lerp a b t = a + (b - a) * t"

definition interpolate_at :: "real list \<Rightarrow> real \<Rightarrow> real" where
  "interpolate_at arr virtual_index =
     (let previous_index = nat \<lfloor>virtual_index\<rfloor>;
          next_index = min (previous_index + 1) (length arr - 1);
          gamma = virtual_index - real previous_index
      in lerp (arr ! previous_index) (arr ! next_index) gamma)"

definition np_percentile :: "real list \<Rightarrow> real \<Rightarrow> real" where
  "np_percentile a q = interpolate_at (sort a) (real (length a - 1) * (q / 100))"

text \<open>
  \<^verbatim>\<open>np.median\<close>: the middle order statistic, or the mean of the two middle ones.
\<close>

definition np_median :: "real list \<Rightarrow> real" where
  "np_median a =
     (let arr = sort a; n = length a
      in if even n then (arr ! (n div 2 - 1) + arr ! (n div 2)) / 2
         else arr ! (n div 2))"

text \<open>
  \<^verbatim>\<open>axis=0\<close>: the statistics run over each column of the matrix. A numpy array is
  rectangular, so the first row gives the number of columns.
\<close>

definition columns :: "real list list \<Rightarrow> real list list" where
  "columns rows =
     (case rows of
        [] \<Rightarrow> []
      | r # _ \<Rightarrow> map (\<lambda>j. map (\<lambda>row. row ! j) rows) [0..<length r])"

text \<open>
  The result dict. The two last fields are the keys that only the event modes add:
  \<open>None\<close> is a key that is absent, \<open>Some None\<close> is \<^verbatim>\<open>"event_context": null\<close>.
\<close>

record event_ctx =
  num_events :: nat
  avg_event_return :: pyval
  avg_event_strength :: pyval
  event_bias :: pyfloat
  positive_events :: nat
  negative_events :: nat
  event_types :: "(pyval \<times> nat) list"

record event_anl =
  classification :: pyval
  strength :: pyval
  residual_return :: pyval
  expected_continuation :: pyval
  confidence :: pyfloat

record forecast =
  median :: "real list"
  low_10 :: "real list"
  high_90 :: "real list"
  low_25 :: "real list"
  high_75 :: "real list"
  samples :: "real list list"
  last_price :: real
  prediction_length :: int
  event_context :: "event_ctx option option"
  event_analysis :: "event_anl option"

text \<open>
  The function has no check of its own on \<open>prices\<close>: the cache is consulted and the
  engine is called first, and \<^verbatim>\<open>prices[-1]\<close> raises IndexError only when the result
  dict is built.
\<close>

definition forecast_prices ::
  "'h engine \<Rightarrow> real list \<Rightarrow> int \<Rightarrow> int \<Rightarrow> string \<Rightarrow> 'h cache \<Rightarrow> (error + forecast) \<times> 'h cache" where
  "forecast_prices eng prices pred_len num_samples model_size st =
     (case get_pipeline eng model_size st of
        (Inl e, st1) \<Rightarrow> (Inl e, st1)
      | (Inr p, st1) \<Rightarrow>
          (let st2 = st1\<lparr>calls := calls st1 @ [Predict prices pred_len num_samples]\<rparr> in
           case predict eng p prices pred_len num_samples of
             Inl e \<Rightarrow> (Inl e, st2)
           | Inr forecast_np \<Rightarrow>
               if forecast_np = [] then (Inl NoSamples, st2)
               else
                 (let cols = columns forecast_np in
                  if prices = [] then (Inl IndexError, st2)
                  else
                    (Inr \<lparr>median = map np_median cols,
                          low_10 = map (\<lambda>c. np_percentile c 10) cols,
                          high_90 = map (\<lambda>c. np_percentile c 90) cols,
                          low_25 = map (\<lambda>c. np_percentile c 25) cols,
                          high_75 = map (\<lambda>c. np_percentile c 75) cols,
                          samples = forecast_np,
                          last_price = last prices,
                          prediction_length = pred_len,
                          event_context = None,
                          event_analysis = None\<rparr>, st2))))"

section \<open>\<^verbatim>\<open>forecast_with_events\<close>\<close>

text \<open>
  The comprehensions of lines 134 and 135: the values of one key, of the events where the
  value is truthy.
\<close>

definition field_values :: "pydict list \<Rightarrow> string \<Rightarrow> pyval list" where
  "field_values events k =
     [dict_get e k (PInt 0). e \<leftarrow> events, truthy (dict_get e k PNone)]"

text \<open>\<^verbatim>\<open>np.mean(vs) if vs else 0\<close>\<close>

definition mean_or_zero :: "'h engine \<Rightarrow> pyval list \<Rightarrow> error + pyval" where
  "mean_or_zero eng vs =
     (if vs = [] then Inr (PInt 0)
      else case np_mean eng vs of Inl e \<Rightarrow> Inl e | Inr m \<Rightarrow> Inr (PFloat m))"

text \<open>The loop of lines 146 to 149; the dict keeps its keys in insertion order.\<close>

fun count_event_types :: "pydict list \<Rightarrow> (pyval \<times> nat) list \<Rightarrow> (pyval \<times> nat) list" where
  "count_event_types [] types = types"
| "count_event_types (e # es) types =
     (let cls = dict_get e ''classification'' (PStr ''unknown'')
      in count_event_types es
           (AList.update cls ((case map_of types cls of None \<Rightarrow> 0 | Some c \<Rightarrow> c) + 1) types))"

text \<open>
  Lines 133 to 161, for a list of events that is not empty, in the order of the source:
  the two means, the two counts, the bias, the histogram.
\<close>

definition event_statistics :: "'h engine \<Rightarrow> pydict list \<Rightarrow> error + event_ctx" where
  "event_statistics eng events =
     (let event_returns = field_values events ''residual_return'';
          event_strengths = field_values events ''strength''
      in case mean_or_zero eng event_returns of
           Inl e \<Rightarrow> Inl e
         | Inr avg_return \<Rightarrow>
             (case mean_or_zero eng event_strengths of
                Inl e \<Rightarrow> Inl e
              | Inr avg_strength \<Rightarrow>
                  (case count_if gt_zero event_returns of
                     None \<Rightarrow> Inl TypeError
                   | Some pos \<Rightarrow>
                       (case count_if lt_zero event_returns of
                          None \<Rightarrow> Inl TypeError
                        | Some neg \<Rightarrow>
                            (case int_true_divide (int pos - int neg)
                                    (int (max (length event_returns) 1)) of
                               Inl e \<Rightarrow> Inl e
                             | Inr bias \<Rightarrow>
                                 Inr \<lparr>num_events = length events,
                                      avg_event_return = avg_return,
                                      avg_event_strength = avg_strength,
                                      event_bias = bias,
                                      positive_events = pos,
                                      negative_events = neg,
                                      event_types = count_event_types events []\<rparr>)))))"

definition forecast_with_events ::
  "'h engine \<Rightarrow> real list \<Rightarrow> pydict list \<Rightarrow> int \<Rightarrow> string \<Rightarrow> 'h cache \<Rightarrow> (error + forecast) \<times> 'h cache" where
  "forecast_with_events eng prices events pred_len model_size st =
     (case forecast_prices eng prices pred_len 20 model_size st of
        (Inl e, st1) \<Rightarrow> (Inl e, st1)
      | (Inr base_forecast, st1) \<Rightarrow>
          if events = [] then (Inr (base_forecast\<lparr>event_context := Some None\<rparr>), st1)
          else
            (case event_statistics eng events of
               Inl e \<Rightarrow> (Inl e, st1)
             | Inr ctx \<Rightarrow> (Inr (base_forecast\<lparr>event_context := Some (Some ctx)\<rparr>), st1)))"

section \<open>\<^verbatim>\<open>forecast_post_event\<close>\<close>

text \<open>
  The table of line 191. A float literal is the double nearest to it, and \<^verbatim>\<open>-0.1\<close> is
  the negation of the literal \<^verbatim>\<open>0.1\<close>.
\<close>

definition continuation_factors :: "(pyval \<times> pyval) list" where
  "continuation_factors =
     [(PStr ''surprising_positive'', PFloat (Finite (rnd64 (3 / 10)))),
      (PStr ''positive_anticipated'', PFloat (Finite (- rnd64 (1 / 10)))),
      (PStr ''negative_anticipated'', PFloat (Finite (rnd64 (1 / 10)))),
      (PStr ''surprising_negative'', PFloat (Finite (- rnd64 (2 / 10))))]"

text \<open>
  \<^verbatim>\<open>if not event\<close> holds of \<^verbatim>\<open>None\<close> and of the empty dict alike. Of the entries of
  the analysis only the confidence can raise.
\<close>

definition forecast_post_event ::
  "'h engine \<Rightarrow> real list \<Rightarrow> pydict option \<Rightarrow> int \<Rightarrow> string \<Rightarrow> 'h cache \<Rightarrow> (error + forecast) \<times> 'h cache" where
  "forecast_post_event eng prices event pred_len model_size st =
     (case forecast_prices eng prices pred_len 20 model_size st of
        (Inl e, st1) \<Rightarrow> (Inl e, st1)
      | (Inr base_forecast, st1) \<Rightarrow>
          (case event of
             None \<Rightarrow> (Inr base_forecast, st1)
           | Some ev \<Rightarrow>
               if ev = [] then (Inr base_forecast, st1)
               else
                 (let cls = dict_get ev ''classification'' (PStr ''unknown'');
                      strg = dict_get ev ''strength'' (PInt 0);
                      res = dict_get ev ''residual_return'' (PInt 0);
                      continuation =
                        (case map_of continuation_factors cls of None \<Rightarrow> PInt 0 | Some c \<Rightarrow> c)
                  in case abs_over_ten strg of
                       Inl e \<Rightarrow> (Inl e, st1)
                     | Inr c \<Rightarrow>
                         (Inr (base_forecast
                            \<lparr>event_analysis :=
                               Some \<lparr>classification = cls,
                                     strength = strg,
                                     residual_return = res,
                                     expected_continuation = continuation,
                                     confidence = min_one c\<rparr>\<rparr>), st1))))"

section \<open>\<^verbatim>\<open>main\<close>\<close>

text \<open>
  The command line gives the mode, the model size and the number of days (argparse admits
  the three modes only); the input document gives \<open>prices\<close>, \<open>events\<close> and \<open>event\<close>,
  each of which may be missing. The process prints the error document and exits with
  status 1, prints the result, or dies of an exception nobody catches.
\<close>

datatype mode = Forecast | With_events | Post_event

record args =
  mode :: mode
  model :: string
  days :: int

record input_data =
  data_prices :: "real list option"
  data_events :: "pydict list option"
  data_event :: "pydict option"

datatype outcome = Exit_error string | Printed forecast | Uncaught error

definition printed :: "(error + forecast) \<times> 'h cache \<Rightarrow> outcome \<times> 'h cache" where
  "printed r = (case r of (Inl e, st) \<Rightarrow> (Uncaught e, st) | (Inr f, st) \<Rightarrow> (Printed f, st))"

definition main :: "'h engine \<Rightarrow> args \<Rightarrow> input_data \<Rightarrow> 'h cache \<Rightarrow> outcome \<times> 'h cache" where
  "main eng a data st =
     (let prices = (case data_prices data of None \<Rightarrow> [] | Some ps \<Rightarrow> ps);
          events = (case data_events data of None \<Rightarrow> [] | Some es \<Rightarrow> es);
          event = data_event data
      in if prices = [] then (Exit_error ''No prices provided'', st)
         else
           (case mode a of
              Forecast \<Rightarrow> printed (forecast_prices eng prices (days a) 20 (model a) st)
            | With_events \<Rightarrow> printed (forecast_with_events eng prices events (days a) (model a) st)
            | Post_event \<Rightarrow> printed (forecast_post_event eng prices event (days a) (model a) st)))"

section \<open>Event records as the specification reads them\<close>

text \<open>
  The specification's event record has optional fields, of which the residual return is
  a number when it is there: \<open>numeric_or_absent\<close> says so of one key of a dict. A field counts as positive or negative by the comparisons of the program, and
  it contributes when it is there and is not zero.
\<close>

definition numeric_or_absent :: "pydict \<Rightarrow> string \<Rightarrow> bool" where
  "numeric_or_absent e k =
     (case map_of e k of
        None \<Rightarrow> True
      | Some (PInt n) \<Rightarrow> True
      | Some (PFloat f) \<Rightarrow> True
      | Some _ \<Rightarrow> False)"

definition positive_field :: "pydict \<Rightarrow> string \<Rightarrow> bool" where
  "positive_field e k = (gt_zero (dict_get e k PNone) = Some True)"

definition negative_field :: "pydict \<Rightarrow> string \<Rightarrow> bool" where
  "negative_field e k = (lt_zero (dict_get e k PNone) = Some True)"

definition contributes :: "pydict \<Rightarrow> string \<Rightarrow> bool" where
  "contributes e k = truthy (dict_get e k PNone)"

text \<open>
  A strength that \<^verbatim>\<open>abs(strength) / 10\<close> accepts: a float, or an int whose tenth does
  not overflow the doubles.
\<close>

fun divisible :: "pyval \<Rightarrow> bool" where
  "divisible (PInt n) = (\<not> overflows (\<bar>of_int n\<bar> / 10))"
| "divisible (PFloat f) = True"
| "divisible v = False"

section \<open>A forecaster stub\<close>

text \<open>
  A stand-in for the collaborators, for running the model on concrete inputs: the handle
  of a model is its identifier, and every prediction is the same matrix of four sample
  paths over three steps. The stub's mean raises a TypeError on a value that is not a
  number and an OverflowError on an int of magnitude \<open>2 ^ 1024\<close> or more, as numpy does
  on the list \<^verbatim>\<open>[10**310]\<close>; it is not-a-number when a float is not finite, and the exact
  mean otherwise. \<open>stub_forecast\<close> and \<open>stub_cache\<close> are what a first call of
  \<^verbatim>\<open>forecast_prices(stub_prices, 3, 20, "small")\<close> leaves behind.
\<close>

text \<open>The int \<^verbatim>\<open>10**310\<close>, which is beyond the doubles.\<close>

definition huge_int :: int where
  "huge_int = 10 ^ 310"

definition stub_samples :: "real list list" where
  "stub_samples = [[104, 105, 106], [102, 107, 103], [106, 101, 108], [100, 103, 110]]"

fun stub_number :: "pyval \<Rightarrow> real" where
  "stub_number (PInt n) = of_int n"
| "stub_number (PFloat (Finite x)) = x"
| "stub_number v = 0"

definition stub_mean :: "pyval list \<Rightarrow> error + pyfloat" where
  "stub_mean vs =
     (if list_ex (\<lambda>v. case v of PNone \<Rightarrow> True | PStr s \<Rightarrow> True | _ \<Rightarrow> False) vs
      then Inl TypeError
      else if list_ex (\<lambda>v. case v of PInt n \<Rightarrow> 2 ^ 1024 \<le> \<bar>n\<bar> | _ \<Rightarrow> False) vs
      then Inl OverflowError
      else if list_ex (\<lambda>v. case v of PFloat (Finite x) \<Rightarrow> False | PFloat f \<Rightarrow> True | _ \<Rightarrow> False) vs
      then Inr NaN
      else Inr (Finite (sum_list (map stub_number vs) / real (length vs))))"

definition stub_engine :: "string engine" where
  "stub_engine =
     \<lparr>from_pretrained = (\<lambda>m. Inr m),
      predict = (\<lambda>p context pred_len num_samples. Inr stub_samples),
      np_mean = stub_mean\<rparr>"

definition stub_prices :: "real list" where
  "stub_prices = [100, 101, 99, 102, 103]"

definition stub_forecast :: forecast where
  "stub_forecast =
     \<lparr>median = [103, 104, 107],
      low_10 = [503 / 5, 508 / 5, 1039 / 10],
      high_90 = [527 / 5, 532 / 5, 547 / 5],
      low_25 = [203 / 2, 205 / 2, 421 / 4],
      high_75 = [209 / 2, 211 / 2, 217 / 2],
      samples = stub_samples,
      last_price = 103,
      prediction_length = 3,
      event_context = None,
      event_analysis = None\<rparr>"

definition stub_cache :: "string cache" where
  "stub_cache =
     \<lparr>pipeline = Some ''amazon/chronos-bolt-small'',
      model_name = Some ''amazon/chronos-bolt-small'',
      calls = [Load ''amazon/chronos-bolt-small'', Predict stub_prices 3 20]\<rparr>"

definition stub_loaded :: "string cache" where
  "stub_loaded =
     \<lparr>pipeline = Some ''amazon/chronos-bolt-small'',
      model_name = Some ''amazon/chronos-bolt-small'',
      calls = [Load ''amazon/chronos-bolt-small'']\<rparr>"

section \<open>Rounding to a double\<close>

text \<open>
  Rounding does not leave an interval whose ends are integers, so the rounded value of a
  number between two powers of two stays between them.
\<close>

lemma round_half_even_ge:
  assumes "of_int a \<le> y"
  shows "a \<le> round_half_even y"
proof -
  have "a \<le> \<lfloor>y\<rfloor>" using assms by (simp add: le_floor_iff)
  then show ?thesis by (auto simp: round_half_even_def Let_def)
qed

lemma round_half_even_le:
  assumes "y \<le> of_int b"
  shows "round_half_even y \<le> b"
proof (cases "y = of_int b")
  case True
  then show ?thesis by (simp add: round_half_even_def)
next
  case False
  with assms have "y < of_int b" by simp
  then have "\<lfloor>y\<rfloor> < b" by (simp add: floor_less_iff)
  then show ?thesis by (auto simp: round_half_even_def Let_def)
qed

lemma ulp_pos: "0 < ulp x"
  by (simp add: ulp_def)

lemma rnd64_zero: "rnd64 0 = 0"
  by (simp add: rnd64_def)

lemma rnd64_nonneg:
  assumes "0 \<le> x"
  shows "0 \<le> rnd64 x"
proof (cases "x = 0")
  case True
  then show ?thesis by (simp add: rnd64_def)
next
  case False
  have "of_int 0 \<le> x / ulp x" using assms ulp_pos [of x] by simp
  then have "0 \<le> round_half_even (x / ulp x)" by (rule round_half_even_ge)
  then show ?thesis using False ulp_pos [of x] by (simp add: rnd64_def)
qed

lemma float_exponent_le:
  assumes "x \<noteq> 0" and "\<bar>x\<bar> \<le> 2 powr of_int k" and "- 1022 \<le> k"
  shows "float_exponent x \<le> k"
proof -
  have "log 2 \<bar>x\<bar> \<le> log 2 (2 powr of_int k)"
    using assms(1,2) by (subst log_le_cancel_iff) simp_all
  then have "log 2 \<bar>x\<bar> \<le> of_int k" by simp
  then have "\<lfloor>log 2 \<bar>x\<bar>\<rfloor> \<le> k" by (simp add: floor_le_iff)
  then show ?thesis using assms(3) by (simp add: float_exponent_def)
qed

lemma rnd64_abs_le:
  assumes "\<bar>x\<bar> \<le> 2 powr of_int k" and "- 1022 \<le> k"
  shows "\<bar>rnd64 x\<bar> \<le> 2 powr of_int k"
proof (cases "x = 0")
  case True
  then show ?thesis by (simp add: rnd64_def)
next
  case False
  let ?e = "float_exponent x"
  let ?n = "nat (k - ?e + 52)"
  let ?N = "(2::int) ^ ?n"
  have e: "?e \<le> k" using False assms by (rule float_exponent_le)
  have N: "real_of_int ?N = 2 powr of_int k / ulp x"
  proof -
    have "real_of_int ?N = 2 powr real ?n" by (simp add: powr_realpow)
    also have "real ?n = of_int k - (of_int ?e - 52)" using e by simp
    also have "2 powr (of_int k - (of_int ?e - 52)) = 2 powr of_int k / ulp x"
      by (simp add: ulp_def powr_diff)
    finally show ?thesis .
  qed
  have "\<bar>x / ulp x\<bar> = \<bar>x\<bar> / ulp x"
    using ulp_pos [of x] by simp
  also have "\<dots> \<le> 2 powr of_int k / ulp x"
    using assms(1) ulp_pos [of x] by (intro divide_right_mono) simp_all
  finally have "\<bar>x / ulp x\<bar> \<le> real_of_int ?N"
    by (simp only: N)
  then have lo: "of_int (- ?N) \<le> x / ulp x" and hi: "x / ulp x \<le> of_int ?N" by linarith+
  have "- ?N \<le> round_half_even (x / ulp x)" using lo by (rule round_half_even_ge)
  moreover have "round_half_even (x / ulp x) \<le> ?N" using hi by (rule round_half_even_le)
  ultimately have "- ?N \<le> round_half_even (x / ulp x)" and "round_half_even (x / ulp x) \<le> ?N"
    by simp_all
  then have "\<bar>real_of_int (round_half_even (x / ulp x))\<bar> \<le> real_of_int ?N" by linarith
  then have "\<bar>real_of_int (round_half_even (x / ulp x))\<bar> * ulp x \<le> real_of_int ?N * ulp x"
    using ulp_pos [of x] by (simp add: mult_right_mono)
  also have "real_of_int ?N * ulp x = 2 powr of_int k"
    unfolding N using ulp_pos [of x] by simp
  finally show ?thesis
    using False ulp_pos [of x] by (simp add: rnd64_def abs_mult)
qed

lemma rnd64_ge:
  assumes "2 powr of_int k \<le> x" and "- 1022 \<le> k"
  shows "2 powr of_int k \<le> rnd64 x"
proof -
  have pos: "0 < x" using assms(1) by (smt (verit) powr_gt_zero)
  let ?e = "float_exponent x"
  have "of_int k = log 2 (2 powr of_int k)" by simp
  also have "\<dots> \<le> log 2 x" using assms(1) pos by (subst log_le_cancel_iff) simp_all
  finally have "k \<le> \<lfloor>log 2 x\<rfloor>" by (simp add: le_floor_iff)
  then have e: "?e = \<lfloor>log 2 x\<rfloor>" and ke: "k \<le> ?e"
    using assms(2) pos by (simp_all add: float_exponent_def)
  have "2 powr of_int ?e \<le> 2 powr log 2 x"
    unfolding e by (intro powr_mono) simp_all
  then have le: "2 powr of_int ?e \<le> x" using pos by simp
  have "real_of_int (2 ^ 52) = 2 powr of_int ?e / ulp x"
    by (simp add: ulp_def powr_diff)
  also have "\<dots> \<le> x / ulp x" using le ulp_pos [of x] by (simp add: divide_right_mono)
  finally have "2 ^ 52 \<le> round_half_even (x / ulp x)" by (rule round_half_even_ge)
  then have "real_of_int (2 ^ 52) \<le> real_of_int (round_half_even (x / ulp x))" by linarith
  then have "real_of_int (2 ^ 52) * ulp x \<le> real_of_int (round_half_even (x / ulp x)) * ulp x"
    using ulp_pos [of x] by (intro mult_right_mono) simp_all
  moreover have "real_of_int (2 ^ 52) * ulp x = 2 powr of_int ?e"
    by (simp add: ulp_def powr_diff)
  moreover have "(2::real) powr of_int k \<le> 2 powr of_int ?e"
    using ke by (intro powr_mono) simp_all
  ultimately have "2 powr of_int k \<le> real_of_int (round_half_even (x / ulp x)) * ulp x"
    by linarith
  then show ?thesis using pos by (simp add: rnd64_def)
qed

lemma rnd64_abs_le_one:
  assumes "\<bar>x\<bar> \<le> 1"
  shows "\<bar>rnd64 x\<bar> \<le> 1"
  using rnd64_abs_le [of x 0] assms by simp

lemma rnd64_ge_one:
  assumes "1 \<le> x"
  shows "1 \<le> rnd64 x"
  using rnd64_ge [of 0 x] assms by simp

lemma not_overflows:
  assumes "\<bar>x\<bar> \<le> 2 ^ 1023"
  shows "\<not> overflows x"
proof -
  have "\<bar>rnd64 x\<bar> \<le> 2 powr of_int 1023"
    using assms by (intro rnd64_abs_le) simp_all
  then have "\<bar>rnd64 x\<bar> \<le> 2 ^ 1023" by simp
  moreover have "(2::real) ^ 1023 < 2 ^ 1024" by simp
  ultimately show ?thesis unfolding overflows_def by linarith
qed

lemma overflows_ge:
  assumes "2 ^ 1024 \<le> x"
  shows "overflows x"
proof -
  have "2 powr of_int 1024 \<le> rnd64 x"
    using assms by (intro rnd64_ge) simp_all
  then have "2 ^ 1024 \<le> rnd64 x" by simp
  then show ?thesis unfolding overflows_def by linarith
qed

section \<open>The stub at work\<close>

lemma stub_get:
  "get_pipeline stub_engine ''small'' initial_cache =
     (Inr ''amazon/chronos-bolt-small'', stub_loaded)"
  by (simp add: get_pipeline_def load_model_def initial_cache_def stub_engine_def
      target_model_def model_map_def Let_def stub_loaded_def)

lemma stub_predict: "predict stub_engine p c n k = Inr stub_samples"
  by (simp add: stub_engine_def)

lemma stub_load: "from_pretrained stub_engine m = Inr m"
  by (simp add: stub_engine_def)

lemma stub_samples_not_empty: "stub_samples \<noteq> []"
  by (simp add: stub_samples_def)

lemma stub_columns:
  "columns stub_samples = [[104, 102, 106, 100], [105, 107, 101, 103], [106, 103, 108, 110]]"
  by (simp add: columns_def stub_samples_def upt_rec)

lemma stub_stats:
  "map np_median (columns stub_samples) = [103, 104, 107]"
  "map (\<lambda>c. np_percentile c 10) (columns stub_samples) = [503 / 5, 508 / 5, 1039 / 10]"
  "map (\<lambda>c. np_percentile c 90) (columns stub_samples) = [527 / 5, 532 / 5, 547 / 5]"
  "map (\<lambda>c. np_percentile c 25) (columns stub_samples) = [203 / 2, 205 / 2, 421 / 4]"
  "map (\<lambda>c. np_percentile c 75) (columns stub_samples) = [209 / 2, 211 / 2, 217 / 2]"
  by (simp_all add: stub_columns np_median_def np_percentile_def interpolate_at_def lerp_def
      Let_def)

lemma stub_run:
  "forecast_prices stub_engine stub_prices 3 20 ''small'' initial_cache =
     (Inr stub_forecast, stub_cache)"
  by (simp add: forecast_prices_def stub_get stub_predict stub_samples_not_empty Let_def
      stub_stats stub_forecast_def stub_cache_def stub_loaded_def)
     (simp add: stub_prices_def)

lemma stub_run_empty:
  "forecast_prices stub_engine [] 7 20 ''small'' initial_cache =
     (Inl IndexError,
      \<lparr>pipeline = Some ''amazon/chronos-bolt-small'',
       model_name = Some ''amazon/chronos-bolt-small'',
       calls = [Load ''amazon/chronos-bolt-small'', Predict [] 7 20]\<rparr>)"
  by (simp add: forecast_prices_def stub_get stub_predict stub_samples_not_empty Let_def
      stub_loaded_def)

section \<open>The handle cache\<close>

lemma target_model_small: "target_model ''small'' = ''amazon/chronos-bolt-small''"
  by (simp add: target_model_def model_map_def)

text \<open>
  Claim C4. A model size that is none of tiny, mini, small, base and large resolves to
  the identifier that \<open>small\<close> resolves to, and \<^const>\<open>get_pipeline\<close> then behaves
  exactly as for \<open>small\<close>: it does not fail on the unknown size.
\<close>

theorem unknown_size_resolves_to_small:
  assumes "model_size \<notin> {''tiny'', ''mini'', ''small'', ''base'', ''large''}"
  shows "target_model model_size = target_model ''small'' \<and>
         get_pipeline eng model_size st = get_pipeline eng ''small'' st"
proof -
  have "map_of model_map model_size = None"
    using assms by (simp add: model_map_def)
  then have "target_model model_size = ''amazon/chronos-bolt-small''"
    by (simp add: target_model_def)
  then have "target_model model_size = target_model ''small''"
    by (simp only: target_model_small)
  then show ?thesis
    by (simp add: get_pipeline_def)
qed

theorem unknown_size_resolves_to_small_witness:
  "target_model ''unknown-size'' = target_model ''small'' \<and>
   get_pipeline stub_engine
     ''unknown-size'' initial_cache
   = get_pipeline stub_engine
     ''small'' initial_cache"
  using unknown_size_resolves_to_small [of "''unknown-size''"] by simp

lemma get_pipeline_cached:
  assumes "get_pipeline eng model_size st = (Inr p, st')"
  shows "pipeline st' = Some p \<and> model_name st' = Some (target_model model_size)"
  using assms
  by (auto simp: get_pipeline_def load_model_def Let_def split: option.splits sum.splits if_splits)

lemma get_pipeline_hit:
  assumes "pipeline st = Some p" and "model_name st = Some (target_model model_size)"
  shows "get_pipeline eng model_size st = (Inr p, st)"
  using assms by (simp add: get_pipeline_def)

lemma get_pipeline_miss:
  assumes "pipeline st = None \<or> model_name st \<noteq> Some (target_model model_size)"
  shows "get_pipeline eng model_size st =
           (case from_pretrained eng (target_model model_size) of
              Inl e \<Rightarrow> (Inl e, st\<lparr>calls := calls st @ [Load (target_model model_size)]\<rparr>)
            | Inr p \<Rightarrow>
                (Inr p, st\<lparr>pipeline := Some p, model_name := Some (target_model model_size),
                            calls := calls st @ [Load (target_model model_size)]\<rparr>))"
  using assms
  by (auto simp: get_pipeline_def load_model_def Let_def split: option.splits sum.splits)

text \<open>
  Claim C3. Take a call of \<^const>\<open>get_pipeline\<close> that returned the handle \<open>p\<close> and
  left the state \<open>st1\<close>, which then caches \<open>p\<close> under the identifier of that call. A
  next call whose size resolves to the same identifier returns \<open>p\<close> and leaves the state
  as it is, so the engine is not called. A next call whose size resolves to another
  identifier, and likewise any call on a state that holds no handle, calls the engine's
  load exactly once; when the load returns, the new handle and its identifier take the
  place of the old ones in the one slot the state has, and when it raises, the slot is
  left as it was.
\<close>

theorem consecutive_get_pipeline:
  assumes "get_pipeline eng size_a st0 = (Inr p, st1)"
  shows "pipeline st1 = Some p \<and> model_name st1 = Some (target_model size_a) \<and>
         (target_model size_b = target_model size_a \<longrightarrow>
            get_pipeline eng size_b st1 = (Inr p, st1)) \<and>
         (target_model size_b \<noteq> target_model size_a \<longrightarrow>
            get_pipeline eng size_b st1 =
              (case from_pretrained eng (target_model size_b) of
                 Inl e \<Rightarrow> (Inl e, st1\<lparr>calls := calls st1 @ [Load (target_model size_b)]\<rparr>)
               | Inr q \<Rightarrow>
                   (Inr q, st1\<lparr>pipeline := Some q, model_name := Some (target_model size_b),
                                calls := calls st1 @ [Load (target_model size_b)]\<rparr>))) \<and>
         (pipeline st = None \<longrightarrow>
            get_pipeline eng size_b st =
              (case from_pretrained eng (target_model size_b) of
                 Inl e \<Rightarrow> (Inl e, st\<lparr>calls := calls st @ [Load (target_model size_b)]\<rparr>)
               | Inr q \<Rightarrow>
                   (Inr q, st\<lparr>pipeline := Some q, model_name := Some (target_model size_b),
                               calls := calls st @ [Load (target_model size_b)]\<rparr>)))"
proof -
  have cached: "pipeline st1 = Some p" "model_name st1 = Some (target_model size_a)"
    using get_pipeline_cached [OF assms] by simp_all
  have hit: "get_pipeline eng size_b st1 = (Inr p, st1)"
    if "target_model size_b = target_model size_a"
    using cached that by (simp add: get_pipeline_hit)
  have miss: "model_name st1 \<noteq> Some (target_model size_b)"
    if "target_model size_b \<noteq> target_model size_a"
    using cached that by simp
  show ?thesis
    using cached hit miss
    by (simp add: get_pipeline_miss [of st1] get_pipeline_miss [of st])
qed

theorem consecutive_get_pipeline_witness:
  "get_pipeline stub_engine ''small'' initial_cache =
     (Inr ''amazon/chronos-bolt-small'', stub_loaded) \<and>
   get_pipeline stub_engine ''small'' stub_loaded =
     (Inr ''amazon/chronos-bolt-small'', stub_loaded) \<and>
   get_pipeline stub_engine ''tiny'' stub_loaded =
     (Inr ''amazon/chronos-bolt-tiny'',
      \<lparr>pipeline = Some ''amazon/chronos-bolt-tiny'',
       model_name = Some ''amazon/chronos-bolt-tiny'',
       calls = [Load ''amazon/chronos-bolt-small'', Load ''amazon/chronos-bolt-tiny'']\<rparr>)"
proof -
  have small: "target_model ''small'' = ''amazon/chronos-bolt-small''"
    and tiny: "target_model ''tiny'' = ''amazon/chronos-bolt-tiny''"
    by (simp_all add: target_model_def model_map_def)
  show ?thesis
    using consecutive_get_pipeline [OF stub_get, where size_b = "''small''" and st = initial_cache]
      consecutive_get_pipeline [OF stub_get, where size_b = "''tiny''" and st = initial_cache]
    by (simp add: stub_get small tiny stub_load) (simp add: stub_loaded_def)
qed

section \<open>The base forecast\<close>

text \<open>What a summary is made of, when \<^const>\<open>forecast_prices\<close> returns one.\<close>

lemma forecast_prices_success:
  assumes "forecast_prices eng prices pred_len num_samples model_size st = (Inr f, st')"
  shows "\<exists>m. m \<noteq> [] \<and> prices \<noteq> [] \<and>
           f = \<lparr>median = map np_median (columns m),
                low_10 = map (\<lambda>c. np_percentile c 10) (columns m),
                high_90 = map (\<lambda>c. np_percentile c 90) (columns m),
                low_25 = map (\<lambda>c. np_percentile c 25) (columns m),
                high_75 = map (\<lambda>c. np_percentile c 75) (columns m),
                samples = m,
                last_price = last prices,
                prediction_length = pred_len,
                event_context = None,
                event_analysis = None\<rparr>"
  using assms
  by (auto simp: forecast_prices_def Let_def split: prod.splits sum.splits if_splits)

section \<open>Empty prices\<close>

text \<open>
  \<^const>\<open>forecast_prices\<close> does not look at \<open>prices\<close> before it works: on the empty
  list, from a fresh cache, the stub is asked to load the model and to predict, and the
  call ends in the IndexError of \<^verbatim>\<open>prices[-1]\<close>, not in an error result.
\<close>

theorem forecast_prices_empty_calls_engine:
  "fst (forecast_prices stub_engine [] 7 20 ''small'' initial_cache) = Inl IndexError \<and>
   calls (snd (forecast_prices stub_engine [] 7 20 ''small'' initial_cache)) =
     [Load ''amazon/chronos-bolt-small'', Predict [] 7 20]"
  by (simp add: stub_run_empty)

text \<open>
  Claim C2, as amended. The check for empty prices is the one of \<^const>\<open>main\<close>: given
  an input document whose \<open>prices\<close> are missing or empty, in any mode and for any engine,
  \<^const>\<open>main\<close> prints the error document \<^verbatim>\<open>{"error": "No prices provided"}\<close> and
  exits with status 1, and the state is the one it started from: neither the load nor the
  predict of the engine has been called.
\<close>

theorem main_rejects_empty_prices:
  assumes "data_prices data = None \<or> data_prices data = Some []"
  shows "main eng a data st = (Exit_error ''No prices provided'', st) \<and>
         calls (snd (main eng a data st)) = calls st"
  using assms by (auto simp: main_def)

theorem main_rejects_empty_prices_witness:
  "main stub_engine \<lparr>mode = Forecast, model = ''small'', days = 7\<rparr>
     \<lparr>data_prices = Some [], data_events = None, data_event = None\<rparr> initial_cache =
     (Exit_error ''No prices provided'', initial_cache) \<and>
   calls (snd (main stub_engine \<lparr>mode = Forecast, model = ''small'', days = 7\<rparr>
     \<lparr>data_prices = Some [], data_events = None, data_event = None\<rparr> initial_cache)) = []"
  using main_rejects_empty_prices [of "\<lparr>data_prices = Some [], data_events = None, data_event = None\<rparr>"
      stub_engine "\<lparr>mode = Forecast, model = ''small'', days = 7\<rparr>" initial_cache]
  by (simp add: initial_cache_def)

section \<open>The modes without an event\<close>

text \<open>
  Claim C8. With an empty list of events, \<^const>\<open>forecast_with_events\<close> returns what
  \<^const>\<open>forecast_prices\<close> returns for 20 samples, with the one key \<open>event_context\<close>
  added and set to null; the base forecast carries neither that key nor
  \<open>event_analysis\<close>. When the base forecast raises, so does
  \<^const>\<open>forecast_with_events\<close>, with the same exception and the same state.
\<close>

theorem with_no_events_is_base_forecast:
  "(forecast_prices eng prices pred_len 20 model_size st = (Inr base, st') \<longrightarrow>
      forecast_with_events eng prices [] pred_len model_size st =
        (Inr (base\<lparr>event_context := Some None\<rparr>), st') \<and>
      event_context base = None \<and> event_analysis base = None) \<and>
   (forecast_prices eng prices pred_len 20 model_size st = (Inl e, st') \<longrightarrow>
      forecast_with_events eng prices [] pred_len model_size st = (Inl e, st'))"
  using forecast_prices_success [of eng prices pred_len 20 model_size st base st']
  by (auto simp: forecast_with_events_def)

theorem with_no_events_is_base_forecast_witness:
  "forecast_prices stub_engine stub_prices 3 20 ''small'' initial_cache =
     (Inr stub_forecast, stub_cache) \<and>
   forecast_with_events stub_engine stub_prices [] 3 ''small'' initial_cache =
     (Inr (stub_forecast\<lparr>event_context := Some None\<rparr>), stub_cache) \<and>
   forecast_with_events stub_engine [] [] 7 ''small'' initial_cache =
     (Inl IndexError,
      \<lparr>pipeline = Some ''amazon/chronos-bolt-small'',
       model_name = Some ''amazon/chronos-bolt-small'',
       calls = [Load ''amazon/chronos-bolt-small'', Predict [] 7 20]\<rparr>)"
  using with_no_events_is_base_forecast [of stub_engine stub_prices 3 "''small''" initial_cache
      stub_forecast stub_cache IndexError]
    with_no_events_is_base_forecast [of stub_engine "[]" 7 "''small''" initial_cache
      stub_forecast _ IndexError]
  by (simp add: stub_run stub_run_empty)



section \<open>The analysis of one event\<close>

lemma continuation_lookup:
  "(case map_of continuation_factors c of None \<Rightarrow> PInt 0 | Some x \<Rightarrow> x) =
     (if c = PStr ''surprising_positive'' then PFloat (Finite (rnd64 (3 / 10)))
      else if c = PStr ''positive_anticipated'' then PFloat (Finite (- rnd64 (1 / 10)))
      else if c = PStr ''negative_anticipated'' then PFloat (Finite (rnd64 (1 / 10)))
      else if c = PStr ''surprising_negative'' then PFloat (Finite (- rnd64 (2 / 10)))
      else PInt 0)"
  by (simp add: continuation_factors_def)

text \<open>
  What \<^const>\<open>forecast_post_event\<close> returns for an event record that has a key and
  whose strength can be divided, once the base forecast is there.
\<close>

lemma forecast_post_event_run:
  assumes base: "forecast_prices eng prices pred_len 20 model_size st = (Inr b, st')"
    and ne: "ev \<noteq> []"
    and c: "abs_over_ten (dict_get ev ''strength'' (PInt 0)) = Inr c"
  shows "forecast_post_event eng prices (Some ev) pred_len model_size st =
           (Inr (b\<lparr>event_analysis :=
                    Some \<lparr>classification = dict_get ev ''classification'' (PStr ''unknown''),
                          strength = dict_get ev ''strength'' (PInt 0),
                          residual_return = dict_get ev ''residual_return'' (PInt 0),
                          expected_continuation =
                            (case map_of continuation_factors
                                    (dict_get ev ''classification'' (PStr ''unknown'')) of
                               None \<Rightarrow> PInt 0 | Some c \<Rightarrow> c),
                          confidence = min_one c\<rparr>\<rparr>), st')"
  using ne by (simp add: forecast_post_event_def base c Let_def)

lemma forecast_post_event_raises:
  assumes base: "forecast_prices eng prices pred_len 20 model_size st = (Inr b, st')"
    and ne: "ev \<noteq> []"
    and e: "abs_over_ten (dict_get ev ''strength'' (PInt 0)) = Inl e"
  shows "forecast_post_event eng prices (Some ev) pred_len model_size st = (Inl e, st')"
  using ne by (simp add: forecast_post_event_def base e Let_def)

lemma abs_over_ten_int:
  assumes "\<not> overflows (\<bar>of_int n\<bar> / 10)"
  shows "abs_over_ten (PInt n) = Inr (Finite (rnd64 (\<bar>of_int n\<bar> / 10)))"
  using assms by (simp add: int_true_divide_def)

lemma abs_over_ten_divisible:
  assumes "divisible v"
  shows "\<exists>c. abs_over_ten v = Inr c"
proof (cases v)
  case (PInt n)
  with assms have "\<not> overflows (\<bar>of_int n\<bar> / 10)" by simp
  from abs_over_ten_int [OF this] show ?thesis unfolding PInt by blast
next
  case (PFloat f)
  then show ?thesis by (cases f) simp_all
qed (use assms in simp_all)

lemma divisible_zero: "divisible (PInt 0)"
  by (simp add: not_overflows)

text \<open>
  An event record that is there but has no key at all gets no analysis: the stub's result
  for it is the base forecast, without the key \<open>event_analysis\<close>.
\<close>

theorem empty_record_gets_no_analysis:
  "fst (forecast_post_event stub_engine stub_prices (Some []) 3 ''small'' initial_cache) =
     Inr stub_forecast \<and>
   event_analysis stub_forecast = None"
  by (simp add: forecast_post_event_def stub_run) (simp add: stub_forecast_def)

text \<open>
  Claim C9, as amended. For every event record that has at least one key, and whose
  strength, when it is there, is a float or an int whose tenth does not overflow the
  doubles, \<^const>\<open>forecast_post_event\<close> does not fail once the base forecast is
  there: it returns the base forecast with an analysis that reports the classification
  (\<open>unknown\<close> when the key is missing), the strength and the residual return (each 0
  when the key is missing), and an expected continuation that is the table's coefficient
  for the four classifications of the table and 0 for anything else, a missing
  classification included.
\<close>

theorem post_event_analysis:
  assumes base: "forecast_prices eng prices pred_len 20 model_size st = (Inr b, st')"
    and ne: "ev \<noteq> []"
    and str: "map_of ev ''strength'' = None \<or>
              (\<exists>v. map_of ev ''strength'' = Some v \<and> divisible v)"
  shows "\<exists>a. forecast_post_event eng prices (Some ev) pred_len model_size st =
               (Inr (b\<lparr>event_analysis := Some a\<rparr>), st') \<and>
             classification a = dict_get ev ''classification'' (PStr ''unknown'') \<and>
             strength a = dict_get ev ''strength'' (PInt 0) \<and>
             residual_return a = dict_get ev ''residual_return'' (PInt 0) \<and>
             expected_continuation a =
               (if classification a = PStr ''surprising_positive''
                then PFloat (Finite (rnd64 (3 / 10)))
                else if classification a = PStr ''positive_anticipated''
                then PFloat (Finite (- rnd64 (1 / 10)))
                else if classification a = PStr ''negative_anticipated''
                then PFloat (Finite (rnd64 (1 / 10)))
                else if classification a = PStr ''surprising_negative''
                then PFloat (Finite (- rnd64 (2 / 10)))
                else PInt 0)"
proof -
  have "divisible (dict_get ev ''strength'' (PInt 0))"
    using str divisible_zero by (auto simp: dict_get_def)
  then obtain c where c: "abs_over_ten (dict_get ev ''strength'' (PInt 0)) = Inr c"
    using abs_over_ten_divisible by blast
  let ?cls = "dict_get ev ''classification'' (PStr ''unknown'')"
  let ?a = "\<lparr>classification = ?cls,
             strength = dict_get ev ''strength'' (PInt 0),
             residual_return = dict_get ev ''residual_return'' (PInt 0),
             expected_continuation =
               (case map_of continuation_factors ?cls of None \<Rightarrow> PInt 0 | Some c \<Rightarrow> c),
             confidence = min_one c\<rparr>"
  have run: "forecast_post_event eng prices (Some ev) pred_len model_size st =
               (Inr (b\<lparr>event_analysis := Some ?a\<rparr>), st')"
    using base ne c by (rule forecast_post_event_run)
  have "classification ?a = ?cls" and "strength ?a = dict_get ev ''strength'' (PInt 0)"
    and "residual_return ?a = dict_get ev ''residual_return'' (PInt 0)"
    by simp_all
  moreover have "expected_continuation ?a =
      (if classification ?a = PStr ''surprising_positive''
       then PFloat (Finite (rnd64 (3 / 10)))
       else if classification ?a = PStr ''positive_anticipated''
       then PFloat (Finite (- rnd64 (1 / 10)))
       else if classification ?a = PStr ''negative_anticipated''
       then PFloat (Finite (rnd64 (1 / 10)))
       else if classification ?a = PStr ''surprising_negative''
       then PFloat (Finite (- rnd64 (2 / 10)))
       else PInt 0)"
    by (simp only: event_anl.simps continuation_lookup)
  ultimately show ?thesis using run by blast
qed

theorem post_event_analysis_witness:
  "forecast_post_event stub_engine stub_prices
     (Some [(''classification'', PStr ''surprising_negative'')]) 3 ''small'' initial_cache =
     (Inr (stub_forecast\<lparr>event_analysis :=
              Some \<lparr>classification = PStr ''surprising_negative'', strength = PInt 0,
                    residual_return = PInt 0,
                    expected_continuation = PFloat (Finite (- rnd64 (2 / 10))),
                    confidence = Finite 0\<rparr>\<rparr>), stub_cache)"
proof -
  let ?ev = "[(''classification'', PStr ''surprising_negative'')]"
  have ne: "?ev \<noteq> []" by simp
  have str: "map_of ?ev ''strength'' = None \<or>
      (\<exists>v. map_of ?ev ''strength'' = Some v \<and> divisible v)"
    by simp
  have c: "abs_over_ten (dict_get ?ev ''strength'' (PInt 0)) = Inr (Finite 0)"
    using abs_over_ten_int [of 0] divisible_zero by (simp add: dict_get_def rnd64_zero)
  show ?thesis
    using post_event_analysis [OF stub_run ne str] forecast_post_event_run [OF stub_run ne c]
    by (simp add: dict_get_def continuation_factors_def)
qed

text \<open>
  A strength beyond the doubles, and the strength not-a-number: for the int
  \<^verbatim>\<open>10**310\<close> the division raises and there is no analysis, and for not-a-number the
  confidence is not-a-number, which is not in the interval from 0 to 1.
\<close>

lemma huge_overflows: "overflows (\<bar>of_int huge_int\<bar> / 10)"
  by (rule overflows_ge) (simp add: huge_int_def)

theorem confidence_of_huge_and_nan_strength:
  "fst (forecast_post_event stub_engine stub_prices (Some [(''strength'', PInt huge_int)]) 3
     ''small'' initial_cache) = Inl OverflowError \<and>
   fst (forecast_post_event stub_engine stub_prices (Some [(''strength'', PFloat NaN)]) 3
     ''small'' initial_cache) =
     Inr (stub_forecast\<lparr>event_analysis :=
            Some \<lparr>classification = PStr ''unknown'', strength = PFloat NaN,
                  residual_return = PInt 0, expected_continuation = PInt 0,
                  confidence = NaN\<rparr>\<rparr>)"
proof -
  have ne: "[(''strength'', PInt huge_int)] \<noteq> []"
    and ne': "[(''strength'', PFloat NaN)] \<noteq> []" by simp_all
  have e: "abs_over_ten (dict_get [(''strength'', PInt huge_int)] ''strength'' (PInt 0)) =
      Inl OverflowError"
    using huge_overflows by (simp add: dict_get_def int_true_divide_def)
  have c: "abs_over_ten (dict_get [(''strength'', PFloat NaN)] ''strength'' (PInt 0)) = Inr NaN"
    by (simp add: dict_get_def)
  show ?thesis
    using forecast_post_event_raises [OF stub_run ne e] forecast_post_event_run [OF stub_run ne' c]
    by (simp add: dict_get_def continuation_factors_def)
qed

lemma min_one_ge:
  assumes "1 \<le> x"
  shows "min_one (Finite x) = Finite 1"
  using assms by simp

lemma min_one_le:
  assumes "x \<le> 1"
  shows "min_one (Finite x) = Finite x"
  using assms by simp

text \<open>
  Claim C7, as amended. For an event record whose strength is a float other than
  not-a-number, or an int whose tenth does not overflow the doubles, the analysis has the
  confidence \<^verbatim>\<open>min(abs(strength) / 10, 1.0)\<close>, the quotient being rounded to a double
  and an infinite strength giving 1; it lies between 0 and 1. A strength of 50 gives
  exactly 1, and a strength of 3 gives the double nearest to 3/10, which is the float
  \<^verbatim>\<open>0.3\<close>.
\<close>

theorem confidence_clamped:
  assumes base: "forecast_prices eng prices pred_len 20 model_size st = (Inr b, st')"
    and str: "map_of ev ''strength'' = Some v"
    and ok: "divisible v"
    and nn: "v \<noteq> PFloat NaN"
  shows "\<exists>a c. forecast_post_event eng prices (Some ev) pred_len model_size st =
                 (Inr (b\<lparr>event_analysis := Some a\<rparr>), st') \<and>
               strength a = v \<and> confidence a = Finite c \<and> 0 \<le> c \<and> c \<le> 1 \<and>
               (\<forall>n. v = PInt n \<longrightarrow> c = min (rnd64 (\<bar>of_int n\<bar> / 10)) 1) \<and>
               (\<forall>x. v = PFloat (Finite x) \<longrightarrow> c = min (rnd64 (\<bar>x\<bar> / 10)) 1) \<and>
               (v = PFloat PosInf \<or> v = PFloat NegInf \<longrightarrow> c = 1) \<and>
               (v = PInt 50 \<longrightarrow> c = 1) \<and>
               (v = PInt 3 \<longrightarrow> c = rnd64 (3 / 10))"
proof -
  have ne: "ev \<noteq> []" using str by auto
  have v: "dict_get ev ''strength'' (PInt 0) = v"
    using str by (simp add: dict_get_def)
  have fifty: "min (rnd64 5) 1 = 1"
    using rnd64_ge_one [of 5] by simp
  have three: "min (rnd64 (3 / 10)) 1 = rnd64 (3 / 10)"
    using rnd64_abs_le_one [of "3 / 10"] by simp
  have "\<exists>q c. abs_over_ten v = Inr q \<and> min_one q = Finite c \<and> 0 \<le> c \<and> c \<le> 1 \<and>
           (\<forall>n. v = PInt n \<longrightarrow> c = min (rnd64 (\<bar>of_int n\<bar> / 10)) 1) \<and>
           (\<forall>x. v = PFloat (Finite x) \<longrightarrow> c = min (rnd64 (\<bar>x\<bar> / 10)) 1) \<and>
           (v = PFloat PosInf \<or> v = PFloat NegInf \<longrightarrow> c = 1)"
  proof (cases v)
    case (PInt n)
    with ok have "\<not> overflows (\<bar>of_int n\<bar> / 10)" by simp
    then have q: "abs_over_ten v = Inr (Finite (rnd64 (\<bar>of_int n\<bar> / 10)))"
      unfolding PInt by (rule abs_over_ten_int)
    have "0 \<le> rnd64 (\<bar>of_int n\<bar> / 10)" by (rule rnd64_nonneg) simp
    then show ?thesis using q PInt by (auto simp: min_def)
  next
    case (PFloat f)
    show ?thesis
    proof (cases f)
      case (Finite x)
      have "0 \<le> rnd64 (\<bar>x\<bar> / 10)" by (rule rnd64_nonneg) simp
      then show ?thesis using PFloat Finite by (auto simp: min_def)
    qed (use PFloat nn in simp_all)
  qed (use ok in simp_all)
  then obtain q c where q: "abs_over_ten v = Inr q" and c: "min_one q = Finite c"
    and bounds: "0 \<le> c" "c \<le> 1"
    and int: "\<forall>n. v = PInt n \<longrightarrow> c = min (rnd64 (\<bar>of_int n\<bar> / 10)) 1"
    and float: "\<forall>x. v = PFloat (Finite x) \<longrightarrow> c = min (rnd64 (\<bar>x\<bar> / 10)) 1"
    and inf: "v = PFloat PosInf \<or> v = PFloat NegInf \<longrightarrow> c = 1"
    by blast
  let ?a = "\<lparr>classification = dict_get ev ''classification'' (PStr ''unknown''),
             strength = dict_get ev ''strength'' (PInt 0),
             residual_return = dict_get ev ''residual_return'' (PInt 0),
             expected_continuation =
               (case map_of continuation_factors
                       (dict_get ev ''classification'' (PStr ''unknown'')) of
                  None \<Rightarrow> PInt 0 | Some c \<Rightarrow> c),
             confidence = min_one q\<rparr>"
  have run: "forecast_post_event eng prices (Some ev) pred_len model_size st =
               (Inr (b\<lparr>event_analysis := Some ?a\<rparr>), st')"
    using base ne q [folded v] by (rule forecast_post_event_run)
  have "strength ?a = v" and "confidence ?a = Finite c" by (simp_all add: v c)
  moreover have "v = PInt 50 \<longrightarrow> c = 1" using int fifty by auto
  moreover have "v = PInt 3 \<longrightarrow> c = rnd64 (3 / 10)" using int three by auto
  ultimately show ?thesis using run bounds int float inf by blast
qed

theorem confidence_clamped_witness:
  "forecast_post_event stub_engine stub_prices
     (Some [(''strength'', PInt 50), (''classification'', PStr ''x'')]) 3 ''small''
     initial_cache =
     (Inr (stub_forecast\<lparr>event_analysis :=
              Some \<lparr>classification = PStr ''x'', strength = PInt 50,
                    residual_return = PInt 0, expected_continuation = PInt 0,
                    confidence = Finite 1\<rparr>\<rparr>), stub_cache) \<and>
   forecast_post_event stub_engine stub_prices (Some [(''strength'', PInt 3)]) 3 ''small''
     initial_cache =
     (Inr (stub_forecast\<lparr>event_analysis :=
              Some \<lparr>classification = PStr ''unknown'', strength = PInt 3,
                    residual_return = PInt 0, expected_continuation = PInt 0,
                    confidence = Finite (rnd64 (3 / 10))\<rparr>\<rparr>), stub_cache)"
proof -
  let ?e50 = "[(''strength'', PInt 50), (''classification'', PStr ''x'')]"
  let ?e3 = "[(''strength'', PInt 3)]"
  have s50: "map_of ?e50 ''strength'' = Some (PInt 50)"
    and s3: "map_of ?e3 ''strength'' = Some (PInt 3)"
    by simp_all
  have d50: "divisible (PInt 50)" and d3: "divisible (PInt 3)"
    by (simp_all add: not_overflows)
  have n50: "PInt 50 \<noteq> PFloat NaN" and n3: "PInt 3 \<noteq> PFloat NaN"
    by simp_all
  have ne50: "?e50 \<noteq> []" and ne3: "?e3 \<noteq> []" by simp_all
  have c50: "abs_over_ten (dict_get ?e50 ''strength'' (PInt 0)) = Inr (Finite (rnd64 5))"
    using abs_over_ten_int [of 50] d50 by (simp add: dict_get_def)
  have c3: "abs_over_ten (dict_get ?e3 ''strength'' (PInt 0)) = Inr (Finite (rnd64 (3 / 10)))"
    using abs_over_ten_int [of 3] d3 by (simp add: dict_get_def)
  have m50: "min_one (Finite (rnd64 5)) = Finite 1"
    by (rule min_one_ge) (simp add: rnd64_ge_one)
  have m3: "min_one (Finite (rnd64 (3 / 10))) = Finite (rnd64 (3 / 10))"
    using rnd64_abs_le_one [of "3 / 10"] by (intro min_one_le) simp
  have "forecast_post_event stub_engine stub_prices (Some ?e50) 3 ''small'' initial_cache =
     (Inr (stub_forecast\<lparr>event_analysis :=
              Some \<lparr>classification = PStr ''x'', strength = PInt 50,
                    residual_return = PInt 0, expected_continuation = PInt 0,
                    confidence = Finite 1\<rparr>\<rparr>), stub_cache)"
    using confidence_clamped [OF stub_run s50 d50 n50]
      forecast_post_event_run [OF stub_run ne50 c50]
    by (simp only: m50) (simp add: dict_get_def continuation_factors_def)
  moreover have "forecast_post_event stub_engine stub_prices (Some ?e3) 3 ''small''
     initial_cache =
     (Inr (stub_forecast\<lparr>event_analysis :=
              Some \<lparr>classification = PStr ''unknown'', strength = PInt 3,
                    residual_return = PInt 0, expected_continuation = PInt 0,
                    confidence = Finite (rnd64 (3 / 10))\<rparr>\<rparr>), stub_cache)"
    using confidence_clamped [OF stub_run s3 d3 n3]
      forecast_post_event_run [OF stub_run ne3 c3]
    by (simp only: m3) (simp add: dict_get_def continuation_factors_def)
  ultimately show ?thesis by simp
qed

section \<open>The statistics of a list of events\<close>

text \<open>
  When every residual return that is there is a number, the comparisons with zero do not
  raise, and the events that count as positive or negative are among those that
  contribute.
\<close>

lemma not_overflows_zero: "\<not> overflows 0"
  by (simp add: overflows_def rnd64_zero)

lemma dict_get_truthy:
  assumes "truthy (dict_get e k PNone)"
  shows "dict_get e k d = dict_get e k PNone"
  using assms by (cases "map_of e k") (simp_all add: dict_get_def)

lemma falsy_no_sign:
  assumes "\<not> truthy v"
  shows "gt_zero v \<noteq> Some True \<and> lt_zero v \<noteq> Some True"
proof (cases v)
  case (PFloat f)
  with assms show ?thesis by (cases f) simp_all
qed (use assms in simp_all)

lemma one_sign:
  assumes "gt_zero v = Some True"
  shows "lt_zero v \<noteq> Some True"
proof (cases v)
  case (PFloat f)
  with assms show ?thesis by (cases f) simp_all
qed (use assms in simp_all)

lemma field_values_Cons:
  "field_values (e # es) k =
     (if truthy (dict_get e k PNone) then dict_get e k PNone # field_values es k
      else field_values es k)"
proof (cases "truthy (dict_get e k PNone)")
  case True
  from dict_get_truthy [OF this, of "PInt 0"] True show ?thesis
    by (simp add: field_values_def)
next
  case False
  then show ?thesis by (simp add: field_values_def)
qed

lemma field_values_Nil: "field_values [] k = []"
  by (simp add: field_values_def)

lemma field_values_numeric:
  assumes "\<forall>e\<in>set events. numeric_or_absent e k"
  shows "\<forall>v\<in>set (field_values events k). gt_zero v \<noteq> None \<and> lt_zero v \<noteq> None"
  using assms
proof (induction events)
  case Nil
  then show ?case by (simp add: field_values_Nil)
next
  case (Cons e es)
  then have e: "numeric_or_absent e k"
    and IH: "\<forall>v\<in>set (field_values es k). gt_zero v \<noteq> None \<and> lt_zero v \<noteq> None"
    by simp_all
  have "gt_zero (dict_get e k PNone) \<noteq> None \<and> lt_zero (dict_get e k PNone) \<noteq> None"
    if "truthy (dict_get e k PNone)"
  proof (cases "map_of e k")
    case None
    with that show ?thesis by (simp add: dict_get_def)
  next
    case (Some v)
    with e have "gt_zero v \<noteq> None \<and> lt_zero v \<noteq> None"
    proof (cases v)
      case (PFloat f)
      then show ?thesis by (cases f) simp_all
    qed (simp_all add: numeric_or_absent_def)
    with Some show ?thesis by (simp add: dict_get_def)
  qed
  with IH show ?case by (simp add: field_values_Cons)
qed

lemma count_if_total:
  assumes "\<forall>v\<in>set vs. test v \<noteq> None"
  shows "count_if test vs = Some (length [v \<leftarrow> vs. test v = Some True])"
  using assms by (induction vs) auto

lemma positive_count:
  "length [v \<leftarrow> field_values events k. gt_zero v = Some True] =
     length [e \<leftarrow> events. positive_field e k]"
proof (induction events)
  case Nil
  show ?case by (simp add: field_values_Nil)
next
  case (Cons e es)
  show ?case
  proof (cases "truthy (dict_get e k PNone)")
    case True
    then show ?thesis using Cons by (simp add: field_values_Cons positive_field_def)
  next
    case False
    then have "\<not> positive_field e k"
      using falsy_no_sign [of "dict_get e k PNone"] by (simp add: positive_field_def)
    then show ?thesis using False Cons by (simp add: field_values_Cons)
  qed
qed

lemma negative_count:
  "length [v \<leftarrow> field_values events k. lt_zero v = Some True] =
     length [e \<leftarrow> events. negative_field e k]"
proof (induction events)
  case Nil
  show ?case by (simp add: field_values_Nil)
next
  case (Cons e es)
  show ?case
  proof (cases "truthy (dict_get e k PNone)")
    case True
    then show ?thesis using Cons by (simp add: field_values_Cons negative_field_def)
  next
    case False
    then have "\<not> negative_field e k"
      using falsy_no_sign [of "dict_get e k PNone"] by (simp add: negative_field_def)
    then show ?thesis using False Cons by (simp add: field_values_Cons)
  qed
qed

lemma contributing_count:
  "length (field_values events k) = length [e \<leftarrow> events. contributes e k]"
  by (induction events) (simp_all add: field_values_Nil field_values_Cons contributes_def)

lemma signs_bounded:
  "length [v \<leftarrow> vs. gt_zero v = Some True] + length [v \<leftarrow> vs. lt_zero v = Some True]
     \<le> length vs"
proof (induction vs)
  case Nil
  show ?case by simp
next
  case (Cons v vs)
  have "\<not> (gt_zero v = Some True \<and> lt_zero v = Some True)"
    using one_sign [of v] by blast
  then show ?case using Cons by auto
qed

lemma not_overflows_small:
  assumes "\<bar>x\<bar> \<le> 1"
  shows "\<not> overflows x"
proof -
  have "\<bar>rnd64 x\<bar> \<le> 1" using assms by (rule rnd64_abs_le_one)
  moreover have "(1::real) < 2 ^ 1024" by simp
  ultimately have "\<bar>rnd64 x\<bar> < 2 ^ 1024" by (rule le_less_trans)
  then show ?thesis by (simp only: overflows_def not_le)
qed

lemma ratio_le_one:
  assumes "p + q \<le> n"
  shows "\<bar>(real p - real q) / real (max 1 n)\<bar> \<le> 1"
proof -
  have d: "0 < real (max 1 n)" by simp
  have "\<bar>real p - real q\<bar> \<le> real p + real q" by simp
  also have "\<dots> \<le> real n" using assms by (metis of_nat_add of_nat_le_iff)
  also have "\<dots> \<le> real (max 1 n)" by simp
  finally have "\<bar>real p - real q\<bar> \<le> real (max 1 n)" .
  then have "\<bar>real p - real q\<bar> / real (max 1 n) \<le> 1"
    using d by (simp only: divide_le_eq_1_pos)
  then show ?thesis using d by (simp only: abs_divide abs_of_pos)
qed

lemma bias_bounded:
  assumes "p + q \<le> n"
  shows "int_true_divide (int p - int q) (int (max n 1)) =
           Inr (Finite (rnd64 ((real p - real q) / real (max 1 n))))"
    and "\<bar>rnd64 ((real p - real q) / real (max 1 n))\<bar> \<le> 1"
proof -
  let ?x = "(real p - real q) / real (max 1 n)"
  have x: "\<bar>?x\<bar> \<le> 1" using assms by (rule ratio_le_one)
  then show "\<bar>rnd64 ?x\<bar> \<le> 1" by (rule rnd64_abs_le_one)
  have no: "\<not> overflows ?x" using x by (rule not_overflows_small)
  have eq: "real_of_int (int p - int q) / real_of_int (int (max n 1)) = ?x"
    by (simp add: max.commute del: of_nat_max)
  show "int_true_divide (int p - int q) (int (max n 1)) = Inr (Finite (rnd64 ?x))"
    unfolding int_true_divide_def eq using no by simp
qed

lemma mean_or_zero_returns:
  assumes "vs = [] \<or> (\<exists>m. np_mean eng vs = Inr m)"
  shows "\<exists>a. mean_or_zero eng vs = Inr a"
  using assms by (auto simp: mean_or_zero_def)

lemma event_statistics_numeric:
  assumes r: "\<forall>e\<in>set events. numeric_or_absent e ''residual_return''"
    and mr: "field_values events ''residual_return'' = [] \<or>
             (\<exists>m. np_mean eng (field_values events ''residual_return'') = Inr m)"
    and ms: "field_values events ''strength'' = [] \<or>
             (\<exists>m. np_mean eng (field_values events ''strength'') = Inr m)"
  shows "\<exists>c b. event_statistics eng events = Inr c \<and>
           num_events c = length events \<and>
           positive_events c = length [e \<leftarrow> events. positive_field e ''residual_return''] \<and>
           negative_events c = length [e \<leftarrow> events. negative_field e ''residual_return''] \<and>
           event_bias c = Finite b \<and>
           b = rnd64 ((real (positive_events c) - real (negative_events c)) /
                 real (max 1 (length [e \<leftarrow> events. contributes e ''residual_return'']))) \<and>
           - 1 \<le> b \<and> b \<le> 1"
proof -
  let ?rs = "field_values events ''residual_return''"
  let ?ss = "field_values events ''strength''"
  let ?pos = "length [v \<leftarrow> ?rs. gt_zero v = Some True]"
  let ?neg = "length [v \<leftarrow> ?rs. lt_zero v = Some True]"
  let ?b = "rnd64 ((real ?pos - real ?neg) / real (max 1 (length ?rs)))"
  obtain ar where ar: "mean_or_zero eng ?rs = Inr ar"
    using mean_or_zero_returns [OF mr] by blast
  obtain as where as: "mean_or_zero eng ?ss = Inr as"
    using mean_or_zero_returns [OF ms] by blast
  have num: "\<forall>v\<in>set ?rs. gt_zero v \<noteq> None \<and> lt_zero v \<noteq> None"
    using r by (rule field_values_numeric)
  have pos: "count_if gt_zero ?rs = Some ?pos"
    using num by (intro count_if_total) simp
  have neg: "count_if lt_zero ?rs = Some ?neg"
    using num by (intro count_if_total) simp
  have le: "?pos + ?neg \<le> length ?rs" by (rule signs_bounded)
  have div: "int_true_divide (int ?pos - int ?neg) (int (max (length ?rs) 1)) =
               Inr (Finite ?b)"
    by (rule bias_bounded(1) [OF le])
  have bound: "\<bar>?b\<bar> \<le> 1"
    by (rule bias_bounded(2) [OF le])
  let ?c = "\<lparr>num_events = length events,
             avg_event_return = ar,
             avg_event_strength = as,
             event_bias = Finite ?b,
             positive_events = ?pos,
             negative_events = ?neg,
             event_types = count_event_types events []\<rparr>"
  have run: "event_statistics eng events = Inr ?c"
    by (simp only: event_statistics_def Let_def ar as pos neg div sum.case option.case)
  have "positive_events ?c = length [e \<leftarrow> events. positive_field e ''residual_return'']"
    and "negative_events ?c = length [e \<leftarrow> events. negative_field e ''residual_return'']"
    by (simp_all only: event_ctx.simps positive_count negative_count)
  moreover have "?b = rnd64 ((real (positive_events ?c) - real (negative_events ?c)) /
      real (max 1 (length [e \<leftarrow> events. contributes e ''residual_return''])))"
    by (simp only: event_ctx.simps contributing_count)
  moreover have "- 1 \<le> ?b" and "?b \<le> 1" using bound by linarith+
  moreover have "num_events ?c = length events" and "event_bias ?c = Finite ?b" by simp_all
  ultimately show ?thesis using run by blast
qed

text \<open>
  A residual return beyond the doubles: on the list \<^verbatim>\<open>[10**310]\<close> the stub's mean
  raises an OverflowError, as numpy's does, and there is neither a context nor a bias.
\<close>

lemma stub_mean_huge: "np_mean stub_engine [PInt huge_int] = Inl OverflowError"
  by (simp add: stub_engine_def stub_mean_def huge_int_def)

theorem huge_return_gets_no_context:
  "fst (forecast_with_events stub_engine stub_prices [[(''residual_return'', PInt huge_int)]]
     3 ''small'' initial_cache) = Inl OverflowError"
proof -
  have "field_values [[(''residual_return'', PInt huge_int)]] ''residual_return'' =
      [PInt huge_int]"
    by (simp add: field_values_def dict_get_def huge_int_def)
  then have "event_statistics stub_engine [[(''residual_return'', PInt huge_int)]] =
      Inl OverflowError"
    by (simp add: event_statistics_def mean_or_zero_def stub_mean_huge Let_def)
  then show ?thesis
    by (simp add: forecast_with_events_def stub_run)
qed

text \<open>
  Claim C5, as amended. For a list of events that is not empty, with residual returns that
  are numbers when they are there (missing, zero, positive or negative in any
  combination), when numpy's mean raises neither on the residual returns nor on the
  strengths that are kept, and once the base forecast is there,
  \<^const>\<open>forecast_with_events\<close> returns an event context whose \<open>positive_events\<close> and
  \<open>negative_events\<close> count the events with a residual return above and below zero, whose \<open>event_bias\<close> is their difference divided by the larger of
  1 and the number of events with a residual return other than zero, rounded to a double,
  and that bias lies between -1 and 1.
\<close>

theorem sentiment_bias:
  assumes base: "forecast_prices eng prices pred_len 20 model_size st = (Inr b, st')"
    and ne: "events \<noteq> []"
    and typed: "\<forall>e\<in>set events. numeric_or_absent e ''residual_return''"
    and mean_returns: "field_values events ''residual_return'' = [] \<or>
                       (\<exists>m. np_mean eng (field_values events ''residual_return'') = Inr m)"
    and mean_strengths: "field_values events ''strength'' = [] \<or>
                         (\<exists>m. np_mean eng (field_values events ''strength'') = Inr m)"
  shows "\<exists>c bias. forecast_with_events eng prices events pred_len model_size st =
               (Inr (b\<lparr>event_context := Some (Some c)\<rparr>), st') \<and>
             positive_events c = length [e \<leftarrow> events. positive_field e ''residual_return''] \<and>
             negative_events c = length [e \<leftarrow> events. negative_field e ''residual_return''] \<and>
             event_bias c = Finite bias \<and>
             bias = rnd64 ((real (positive_events c) - real (negative_events c)) /
                      real (max 1 (length [e \<leftarrow> events. contributes e ''residual_return'']))) \<and>
             - 1 \<le> bias \<and> bias \<le> 1"
proof -
  from event_statistics_numeric [OF typed mean_returns mean_strengths]
  obtain c bias where c: "event_statistics eng events = Inr c"
    and rest: "positive_events c = length [e \<leftarrow> events. positive_field e ''residual_return'']"
      "negative_events c = length [e \<leftarrow> events. negative_field e ''residual_return'']"
      "event_bias c = Finite bias"
      "bias = rnd64 ((real (positive_events c) - real (negative_events c)) /
                      real (max 1 (length [e \<leftarrow> events. contributes e ''residual_return''])))"
      "- 1 \<le> bias" "bias \<le> 1"
    by blast
  have "forecast_with_events eng prices events pred_len model_size st =
               (Inr (b\<lparr>event_context := Some (Some c)\<rparr>), st')"
    using ne by (simp add: forecast_with_events_def base c)
  with rest show ?thesis by blast
qed

theorem sentiment_bias_witness:
  "forecast_with_events stub_engine stub_prices
     [[(''residual_return'', PInt 2)],
      [(''residual_return'', PInt 3), (''strength'', PInt 4)],
      [],
      [(''residual_return'', PInt (- 1))]] 3 ''small'' initial_cache =
     (Inr (stub_forecast\<lparr>event_context := Some (Some
          \<lparr>num_events = 4, avg_event_return = PFloat (Finite (4 / 3)),
           avg_event_strength = PFloat (Finite 4),
           event_bias = Finite (rnd64 (1 / 3)), positive_events = 2, negative_events = 1,
           event_types = [(PStr ''unknown'', 4)]\<rparr>)\<rparr>), stub_cache)"
proof -
  let ?events = "[[(''residual_return'', PInt 2)],
      [(''residual_return'', PInt 3), (''strength'', PInt 4)],
      [],
      [(''residual_return'', PInt (- 1))]]"
  have ne: "?events \<noteq> []" by simp
  have typed: "\<forall>e\<in>set ?events. numeric_or_absent e ''residual_return''"
    by (simp add: numeric_or_absent_def)
  have rs: "field_values ?events ''residual_return'' = [PInt 2, PInt 3, PInt (- 1)]"
    and ss: "field_values ?events ''strength'' = [PInt 4]"
    by (simp_all add: field_values_def dict_get_def)
  have mr: "np_mean stub_engine [PInt 2, PInt 3, PInt (- 1)] = Inr (Finite (4 / 3))"
    and ms: "np_mean stub_engine [PInt 4] = Inr (Finite 4)"
    by (simp_all add: stub_engine_def stub_mean_def)
  have mean_returns: "field_values ?events ''residual_return'' = [] \<or>
      (\<exists>m. np_mean stub_engine (field_values ?events ''residual_return'') = Inr m)"
    and mean_strengths: "field_values ?events ''strength'' = [] \<or>
      (\<exists>m. np_mean stub_engine (field_values ?events ''strength'') = Inr m)"
    by (simp_all only: rs ss mr ms) simp_all
  have no: "\<not> overflows (1 / 3)"
    by (rule not_overflows_small) simp
  have stats: "event_statistics stub_engine ?events =
      Inr \<lparr>num_events = 4, avg_event_return = PFloat (Finite (4 / 3)),
           avg_event_strength = PFloat (Finite 4),
           event_bias = Finite (rnd64 (1 / 3)), positive_events = 2, negative_events = 1,
           event_types = [(PStr ''unknown'', 4)]\<rparr>"
    unfolding event_statistics_def Let_def rs ss
    by (simp add: mean_or_zero_def mr ms int_true_divide_def no dict_get_def)
  have run: "forecast_with_events stub_engine stub_prices ?events 3 ''small'' initial_cache =
     (Inr (stub_forecast\<lparr>event_context := Some (Some
          \<lparr>num_events = 4, avg_event_return = PFloat (Finite (4 / 3)),
           avg_event_strength = PFloat (Finite 4),
           event_bias = Finite (rnd64 (1 / 3)), positive_events = 2, negative_events = 1,
           event_types = [(PStr ''unknown'', 4)]\<rparr>)\<rparr>), stub_cache)"
    by (simp add: forecast_with_events_def stub_run stats)
  show ?thesis
    using sentiment_bias [OF stub_run ne typed mean_returns mean_strengths] run by simp
qed

text \<open>Events without any of the three fields.\<close>

lemma blank_values:
  assumes "\<forall>e\<in>set events. map_of e k = None"
  shows "field_values events k = []"
  using assms
  by (induction events) (simp_all add: field_values_Nil field_values_Cons dict_get_def)

lemma count_event_types_unknown:
  assumes "\<forall>e\<in>set events. map_of e ''classification'' = None"
  shows "count_event_types events [(PStr ''unknown'', n)] = [(PStr ''unknown'', n + length events)]"
  using assms by (induction events arbitrary: n) (simp_all add: dict_get_def)

lemma count_event_types_blank:
  assumes "\<forall>e\<in>set events. map_of e ''classification'' = None" and "events \<noteq> []"
  shows "count_event_types events [] = [(PStr ''unknown'', length events)]"
proof -
  from assms(2) obtain e es where ev: "events = e # es" by (cases events) auto
  with assms(1) have "map_of e ''classification'' = None"
    and "\<forall>e\<in>set es. map_of e ''classification'' = None" by simp_all
  then show ?thesis
    unfolding ev by (simp add: dict_get_def count_event_types_unknown)
qed

lemma event_statistics_blank:
  assumes "\<forall>e\<in>set events. map_of e ''classification'' = None \<and>
             map_of e ''strength'' = None \<and> map_of e ''residual_return'' = None"
    and "events \<noteq> []"
  shows "event_statistics eng events =
           Inr \<lparr>num_events = length events, avg_event_return = PInt 0,
                avg_event_strength = PInt 0, event_bias = Finite 0, positive_events = 0,
                negative_events = 0, event_types = [(PStr ''unknown'', length events)]\<rparr>"
proof -
  have r: "field_values events ''residual_return'' = []"
    and s: "field_values events ''strength'' = []"
    using assms(1) by (simp_all add: blank_values)
  have c: "count_event_types events [] = [(PStr ''unknown'', length events)]"
    using assms by (simp add: count_event_types_blank)
  show ?thesis
    unfolding event_statistics_def Let_def r s c
    by (simp add: mean_or_zero_def int_true_divide_def not_overflows_zero rnd64_zero)
qed

text \<open>
  Claim C6. Once the base forecast is there, an empty list of events gives the event
  context null, and a list that is not empty, in which no record has a classification, a
  strength or a residual return, gives a context that counts the events, has both means
  and the bias equal to 0 and no positive or negative event, and files every event under
  \<open>unknown\<close>.
\<close>

theorem no_events_and_blank_events:
  assumes base: "forecast_prices eng prices pred_len 20 model_size st = (Inr b, st')"
  shows "forecast_with_events eng prices [] pred_len model_size st =
           (Inr (b\<lparr>event_context := Some None\<rparr>), st') \<and>
         (events \<noteq> [] \<and>
          (\<forall>e\<in>set events. map_of e ''classification'' = None \<and>
             map_of e ''strength'' = None \<and> map_of e ''residual_return'' = None) \<longrightarrow>
          forecast_with_events eng prices events pred_len model_size st =
            (Inr (b\<lparr>event_context := Some (Some
                 \<lparr>num_events = length events, avg_event_return = PInt 0,
                  avg_event_strength = PInt 0, event_bias = Finite 0, positive_events = 0,
                  negative_events = 0,
                  event_types = [(PStr ''unknown'', length events)]\<rparr>)\<rparr>), st'))"
  by (simp add: forecast_with_events_def base event_statistics_blank)

theorem no_events_and_blank_events_witness:
  "forecast_with_events stub_engine stub_prices [] 3 ''small'' initial_cache =
     (Inr (stub_forecast\<lparr>event_context := Some None\<rparr>), stub_cache) \<and>
   forecast_with_events stub_engine stub_prices [[], [(''date'', PStr ''2024-05-01'')]] 3
     ''small'' initial_cache =
     (Inr (stub_forecast\<lparr>event_context := Some (Some
          \<lparr>num_events = 2, avg_event_return = PInt 0, avg_event_strength = PInt 0,
           event_bias = Finite 0, positive_events = 0, negative_events = 0,
           event_types = [(PStr ''unknown'', 2)]\<rparr>)\<rparr>), stub_cache)"
  using no_events_and_blank_events [OF stub_run, of "[[], [(''date'', PStr ''2024-05-01'')]]"]
  by simp

end
